theory Spec2Isabelle
  imports Main
begin

section \<open>Outbound HTTP requests: \<open>Zotero.HTTP\<close>\<close>

subsection \<open>Values, options, errors and effects\<close>

text \<open>
  The \<open>body\<close> option of a request. \<open>BNull\<close> stands for \<open>null\<close> and \<open>undefined\<close>
  (the source compares with \<open>!= null\<close>, which identifies the two), \<open>BStr\<close> for a string and
  \<open>BVal truthy json\<close> for any other value, kept as what the source reads of it: whether it
  is truthy and the text \<open>JSON.stringify\<close> gives for it.
\<close>

datatype body = BNull | BStr string | BVal bool string

text \<open>
  The \<open>successCodes\<close> option: \<open>Unset\<close> for the default \<open>null\<close>, \<open>Disabled\<close> for an explicit
  \<open>false\<close>, \<open>Codes\<close> for an array of status codes (an array is truthy even when empty).
\<close>

datatype success_codes = Unset | Disabled | Codes "nat list"

type_synonym header_list = "(string \<times> string) list"

record options =
  body :: body
  headers :: header_list
  debug :: bool
  logBodyLength :: nat
  timeout :: nat
  responseType :: string
  successCodes :: success_codes

text \<open>The defaults of lines 70--78.\<close>

definition default_options :: options where
  "default_options =
     \<lparr>body = BNull, headers = [], debug = False, logBodyLength = 1024, timeout = 15000,
      responseType = '''', successCodes = Unset\<rparr>"

text \<open>
  What the transport (the \<open>request\<close> package) hands to the callback of line 117: an error
  object of its own, or a response. A timeout is one of the transport's errors
  (codes \<open>ETIMEDOUT\<close> and \<open>ESOCKETTIMEDOUT\<close>).
\<close>

datatype lib_error = ETIMEDOUT | ESOCKETTIMEDOUT | OtherLibError string

record response =
  statusCode :: nat
  response_headers :: header_list
  response_body :: string

datatype net_result = Failed lib_error | Responded response

text \<open>
  The errors of this file. \<open>InvalidArgument method body\<close> is the \<open>Error\<close> of line 87, kept
  as the two values its message interpolates; \<open>StatusError url status body\<close> and
  \<open>TimeoutError ms\<close> are the two constructors of lines 37--47; \<open>TransportError\<close> is the
  transport's error object passed on as it is (line 119); \<open>ReferenceError name\<close> is what
  reading an undeclared identifier raises; \<open>ProcessorError\<close> is an error of the caller's
  processor in \<open>processDocuments\<close>.
\<close>

datatype error =
    InvalidArgument string body
  | StatusError string nat string
  | TimeoutError nat
  | TransportError lib_error
  | ReferenceError string
  | ProcessorError string

text \<open>
  How a call ends: \<open>Threw\<close> is an exception raised synchronously by the call itself,
  \<open>Rejected\<close> and \<open>Resolved\<close> are the two ways the returned promise settles, and
  \<open>Uncaught\<close> is an exception raised inside the transport's callback, outside any promise
  reaction: the promise then never settles.
\<close>

datatype 'a outcome = Threw error | Rejected error | Uncaught error | Resolved 'a

record reply =
  responseText :: string
  reply_headers :: header_list
  reply_statusCode :: nat

text \<open>
  Observable effects, in the order they happen: a line given to \<open>Zotero.debug\<close>, a request
  handed to the transport (method, uri, headers, timeout, body), a call of the processor
  of \<open>processDocuments\<close> on the document of a URL, and calls of the legacy callbacks.
\<close>

datatype effect =
    Debug string
  | Outbound string string header_list nat body
  | Process string
  | OnError error
  | OnDone

text \<open>
  What the file takes from outside: the configured \<open>userAgent\<close>, the network (what the
  transport answers to a method and a URL), and the binding of the identifier \<open>status\<close>,
  which line 124 reads and which this file declares nowhere: \<open>None\<close> when no global of that
  name exists, \<open>Some v\<close> when some other script has defined one.
\<close>

record env =
  userAgent :: string
  net :: "string \<Rightarrow> string \<Rightarrow> net_result"
  status_global :: "nat option"

subsection \<open>JavaScript primitives used by \<open>request\<close>\<close>

text \<open>\<open>Object.assign(target, source)\<close> on objects kept as association lists.\<close>

fun put_header :: "string \<Rightarrow> string \<Rightarrow> header_list \<Rightarrow> header_list" where
  "put_header k v [] = [(k, v)]"
| "put_header k v ((k', v') # hs) =
     (if k = k' then (k, v) # hs else (k', v') # put_header k v hs)"

fun delete_header :: "string \<Rightarrow> header_list \<Rightarrow> header_list" where
  "delete_header k [] = []"
| "delete_header k ((k', v') # hs) =
     (if k = k' then delete_header k hs else (k', v') # delete_header k hs)"

fun assign :: "header_list \<Rightarrow> header_list \<Rightarrow> header_list" where
  "assign target [] = target"
| "assign target ((k, v) # src) = assign (put_header k v target) src"

text \<open>Decimal text of a number, as string concatenation and template literals produce it.\<close>

fun digit_char :: "nat \<Rightarrow> char" where
  "digit_char n = char_of (48 + n)"

fun show_nat :: "nat \<Rightarrow> string" where
  "show_nat n = (if n < 10 then [digit_char n] else show_nat (n div 10) @ [digit_char (n mod 10)])"

declare show_nat.simps [simp del]

text \<open>
  \<open>ToNumber\<close> on a string, as the relational operators apply it when the other operand is
  a number: white space is trimmed, the empty string is 0, a run of decimal digits is its
  value, and a text that is no numeric literal is \<open>NaN\<close> (\<open>None\<close>). Signs, fractions,
  exponents, the other radixes and \<open>Infinity\<close> are left out: the one text converted below
  begins with a colon, which starts none of them.
\<close>

definition js_space :: "char \<Rightarrow> bool" where
  "js_space c = (c \<in> set [CHR '' '', CHR 0x09, CHR 0x0A, CHR 0x0B, CHR 0x0C, CHR 0x0D])"

definition is_digit :: "char \<Rightarrow> bool" where
  "is_digit c = (48 \<le> (of_char c :: nat) \<and> (of_char c :: nat) \<le> 57)"

definition digits_value :: "string \<Rightarrow> nat" where
  "digits_value s = foldl (\<lambda>acc c. 10 * acc + (of_char c - 48)) 0 s"

definition to_number :: "string \<Rightarrow> nat option" where
  "to_number s =
     (let t = rev (dropWhile js_space (rev (dropWhile js_space s)))
      in if t = [] then Some 0
         else if list_all is_digit t then Some (digits_value t)
         else None)"

text \<open>\<open>s > n\<close> for a string \<open>s\<close> and a number \<open>n\<close>: false whenever \<open>s\<close> converts to \<open>NaN\<close>.\<close>

definition js_gt :: "string \<Rightarrow> nat \<Rightarrow> bool" where
  "js_gt s n = (case to_number s of None \<Rightarrow> False | Some v \<Rightarrow> n < v)"

text \<open>
  \<open>text.replace(/key[^stop]+/, key + '********')\<close>: the leftmost place where \<open>key\<close> is
  followed by at least one character other than \<open>stop\<close> is rewritten, the match running
  on to the next \<open>stop\<close> (or the end); only the first match is replaced, as the patterns
  carry no \<open>g\<close> flag.
\<close>

fun replace_first :: "string \<Rightarrow> char \<Rightarrow> string \<Rightarrow> string" where
  "replace_first key stop [] = []"
| "replace_first key stop (c # cs) =
     (let rest = drop (length key) (c # cs)
      in if take (length key) (c # cs) = key \<and> rest \<noteq> [] \<and> hd rest \<noteq> stop
         then key @ ''********'' @ dropWhile (\<lambda>x. x \<noteq> stop) rest
         else c # replace_first key stop cs)"

definition truthy :: "body \<Rightarrow> bool" where
  "truthy b = (case b of BNull \<Rightarrow> False | BStr s \<Rightarrow> s \<noteq> [] | BVal t j \<Rightarrow> t)"

subsection \<open>\<open>Zotero.HTTP.request\<close>\<close>

text \<open>
  Lines 101--106. In line 101--102 the operators group as
  \<open>((': ' + body.substr(0, cap)) + body.length) > cap ? '...' : ''\<close>, since \<open>+\<close> binds
  tighter than \<open>>\<close> and \<open>>\<close> tighter than the conditional.
\<close>

definition logBody_of :: "string \<Rightarrow> nat \<Rightarrow> string" where
  "logBody_of b cap =
     (let l0 = (if js_gt (('': '' @ take cap b) @ show_nat (length b)) cap then ''...'' else '''');
          l1 = replace_first (''password'' @ [CHR 0x22, CHR '':'', CHR 0x22]) (CHR 0x22) l0;
          l2 = replace_first ''password='' (CHR ''&'') l1
      in l2)"

text \<open>Lines 123--133: \<open>None\<close> is the \<open>ReferenceError\<close> of reading an undeclared \<open>status\<close>.\<close>

definition success :: "env \<Rightarrow> success_codes \<Rightarrow> nat \<Rightarrow> bool option" where
  "success e sc code =
     (case sc of
        Codes cs \<Rightarrow> (case status_global e of None \<Rightarrow> None | Some v \<Rightarrow> Some (v \<in> set cs))
      | Disabled \<Rightarrow> Some True
      | Unset \<Rightarrow> Some (200 \<le> code \<and> code < 300))"

text \<open>Lines 108--147: the log line, the hand-over to the transport and its callback.\<close>

definition send :: "env \<Rightarrow> string \<Rightarrow> string \<Rightarrow> options \<Rightarrow> string \<Rightarrow> reply outcome \<times> effect list" where
  "send e method url opts logBody =
     (let fx = [Debug (''HTTP '' @ method @ '' '' @ url @ logBody),
                Outbound method url (headers opts) (timeout opts) (body opts)]
      in case net e method url of
           Failed err \<Rightarrow> (Rejected (TransportError err), fx)
         | Responded r \<Rightarrow>
             (case success e (successCodes opts) (statusCode r) of
                None \<Rightarrow> (Uncaught (ReferenceError ''status''), fx)
              | Some False \<Rightarrow>
                  (Rejected (StatusError url (statusCode r) (response_body r)), fx)
              | Some True \<Rightarrow>
                  (Resolved \<lparr>responseText = response_body r,
                             reply_headers = response_headers r,
                             reply_statusCode = statusCode r\<rparr>,
                   fx @ (if debug opts
                         then [Debug (''HTTP '' @ show_nat (statusCode r) @ '' response: ''
                                      @ response_body r)]
                         else []))))"

text \<open>Lines 68--108. The caller's options are already merged over the defaults.\<close>

definition request :: "env \<Rightarrow> string \<Rightarrow> string \<Rightarrow> options \<Rightarrow> reply outcome \<times> effect list" where
  "request e method url opts0 =
     (let opts = opts0\<lparr>headers := assign [(''User-Agent'', userAgent e)] (headers opts0)\<rparr>
      in if method \<in> set [''GET'', ''HEAD'']
         then (if body opts \<noteq> BNull
               then (Threw (InvalidArgument method (body opts)), [])
               else send e method url opts '''')
         else if truthy (body opts)
         then (let b = (case body opts of BStr s \<Rightarrow> s | BVal t j \<Rightarrow> j | BNull \<Rightarrow> '''');
                   hs = (case map_of (headers opts) ''Content-Type'' of
                           None \<Rightarrow> put_header ''Content-Type''
                                     ''application/x-www-form-urlencoded'' (headers opts)
                         | Some ct \<Rightarrow>
                             if ct = [] then put_header ''Content-Type''
                                     ''application/x-www-form-urlencoded'' (headers opts)
                             else if ct = ''multipart/form-data''
                             then delete_header ''Content-Type'' (headers opts)
                             else headers opts)
               in send e method url (opts\<lparr>body := BStr b, headers := hs\<rparr>)
                    (logBody_of b (logBodyLength opts)))
         else send e method url opts '''')"

text \<open>The lines given to the logger before the request reaches the transport.\<close>

fun logged_before_send :: "effect list \<Rightarrow> string list" where
  "logged_before_send [] = []"
| "logged_before_send (Debug l # fx) = l # logged_before_send fx"
| "logged_before_send (Outbound m u hs t b # fx) = []"
| "logged_before_send (x # fx) = logged_before_send fx"

fun outbound_urls :: "effect list \<Rightarrow> string list" where
  "outbound_urls [] = []"
| "outbound_urls (Outbound m u hs t b # fx) = u # outbound_urls fx"
| "outbound_urls (x # fx) = outbound_urls fx"

fun contains :: "string \<Rightarrow> string \<Rightarrow> bool" where
  "contains [] t = (t = [])"
| "contains (c # cs) t = (take (length t) (c # cs) = t \<or> contains cs t)"

subsection \<open>\<open>Zotero.HTTP.processDocuments\<close>\<close>

text \<open>
  The first argument is one URL or an array of URLs (line 168). The processor receives
  the document built from the response text, and the URL; it returns a result or fails
  (by throwing or by a rejected promise). \<open>JSDOM\<close> and \<open>wgxpath\<close> are outside this file:
  the document is kept as the response text it is parsed from.
\<close>

datatype urls = Single string | Array "string list"

type_synonym 'r processor = "string \<Rightarrow> string \<Rightarrow> error + 'r"

text \<open>Lines 169--182: one element of \<open>funcs\<close>, called.\<close>

definition load_one :: "env \<Rightarrow> 'r processor \<Rightarrow> string \<Rightarrow> 'r outcome \<times> effect list" where
  "load_one e processor url =
     (case request e ''GET'' url (default_options\<lparr>responseType := ''document''\<rparr>) of
        (Resolved r, fx) \<Rightarrow>
          (case processor (responseText r) url of
             Inl err \<Rightarrow> (Rejected err, fx @ [Process url])
           | Inr v \<Rightarrow> (Resolved v, fx @ [Process url]))
      | (Threw err, fx) \<Rightarrow> (Threw err, fx)
      | (Rejected err, fx) \<Rightarrow> (Rejected err, fx)
      | (Uncaught err, fx) \<Rightarrow> (Uncaught err, fx))"

text \<open>
  Lines 186--198: the queue is taken from the front; an exception or a rejection of
  \<open>await f()\<close> is caught, given to \<open>onError\<close> when there is one, and thrown again, which
  rejects the promise of the \<open>async\<close> function. When the awaited promise never settles
  the loop never goes on.
\<close>

fun process_queue ::
  "env \<Rightarrow> 'r processor \<Rightarrow> bool \<Rightarrow> string list \<Rightarrow> 'r list \<Rightarrow> 'r list outcome \<times> effect list" where
  "process_queue e processor onError [] results = (Resolved results, [])"
| "process_queue e processor onError (u # us) results =
     (case load_one e processor u of
        (Resolved v, fx) \<Rightarrow>
          (case process_queue e processor onError us (results @ [v]) of
             (out, fx') \<Rightarrow> (out, fx @ fx'))
      | (Threw err, fx) \<Rightarrow> (Rejected err, fx @ (if onError then [OnError err] else []))
      | (Rejected err, fx) \<Rightarrow> (Rejected err, fx @ (if onError then [OnError err] else []))
      | (Uncaught err, fx) \<Rightarrow> (Uncaught err, fx))"

text \<open>
  Lines 160--206. \<open>legacy\<close> is \<open>None\<close> for a call with two arguments and
  \<open>Some (onDone, onError)\<close> for the old signature, each flag telling whether that
  callback was given.
\<close>

definition processDocuments ::
  "env \<Rightarrow> urls \<Rightarrow> 'r processor \<Rightarrow> (bool \<times> bool) option \<Rightarrow> 'r list outcome \<times> effect list" where
  "processDocuments e urls processor legacy =
     (let warn = (case legacy of
                    None \<Rightarrow> []
                  | Some cb \<Rightarrow> [Debug (''Zotero.HTTP.processDocuments() now takes only 2 ''
                                       @ ''arguments -- update your code'')]);
          onDone = (case legacy of None \<Rightarrow> False | Some cb \<Rightarrow> fst cb);
          onError = (case legacy of None \<Rightarrow> False | Some cb \<Rightarrow> snd cb);
          queue = (case urls of Single u \<Rightarrow> [u] | Array us \<Rightarrow> us)
      in case process_queue e processor onError queue [] of
           (Resolved results, fx) \<Rightarrow>
             (Resolved results, warn @ fx @ (if onDone then [OnDone] else []))
         | (out, fx) \<Rightarrow> (out, warn @ fx))"

section \<open>The web endpoint and its sessions waiting for selection\<close>

subsection \<open>Sessions and the store\<close>

text \<open>
  The body of an inbound request: \<open>Nothing\<close> for a missing body, \<open>Text\<close> for a string
  and \<open>Object\<close> for a parsed JSON object, kept as its \<open>session\<close> field (\<open>None\<close> when the
  object has none, otherwise the string it holds, which may be empty).
\<close>

datatype payload = Nothing | Text string | Object "string option"

text \<open>
  Modelled from the spec: the \<open>WebSession\<close> class (\<open>./webSession\<close>) is not among the
  sources. The spec gives a session an identifier generated at creation, the request
  context it answers to (\<open>ctx\<close> and \<open>next\<close>, kept here as the number of the request), the
  last inbound data and the time of creation in milliseconds.
\<close>

record session =
  session_id :: string
  started :: int
  ctx :: nat
  data :: payload

definition WebSession :: "string \<Rightarrow> int \<Rightarrow> nat \<Rightarrow> payload \<Rightarrow> session" where
  "WebSession fresh now c d = \<lparr>session_id = fresh, started = now, ctx = c, data = d\<rparr>"

text \<open>
  The module's state. \<open>sessionsWaitingForSelection\<close> is a plain object created by \<open>{}\<close>:
  its own properties are the stored sessions, and a read of a name it does not own goes
  on to its prototype chain; \<open>inherited\<close> lists the names found there. It starts as the
  names of \<open>Object.prototype\<close>.
\<close>

record state =
  sessionsWaitingForSelection :: "string \<rightharpoonup> session"
  inherited :: "string list"
  requestsSinceGC :: nat

definition Object_prototype :: "string list" where
  "Object_prototype =
     [''constructor'', ''__proto__'', ''hasOwnProperty'', ''isPrototypeOf'',
      ''propertyIsEnumerable'', ''toLocaleString'', ''toString'', ''valueOf'',
      ''__defineGetter__'', ''__defineSetter__'', ''__lookupGetter__'', ''__lookupSetter__'']"

definition initial_state :: state where
  "initial_state =
     \<lparr>sessionsWaitingForSelection = Map.empty, inherited = Object_prototype,
      requestsSinceGC = 0\<rparr>"

text \<open>
  \<open>sessionsWaitingForSelection[name]\<close>: a stored session, a value found on the prototype
  chain (a function or an object, truthy and not a session), or \<open>undefined\<close>.
\<close>

datatype slot = Missing | Own session | Inherited

definition js_get :: "state \<Rightarrow> string \<Rightarrow> slot" where
  "js_get st name =
     (case sessionsWaitingForSelection st name of
        Some s \<Rightarrow> Own s
      | None \<Rightarrow> if name \<in> set (inherited st) then Inherited else Missing)"

text \<open>\<open>delete sessionsWaitingForSelection[name]\<close> removes an own property only.\<close>

definition js_delete :: "string \<Rightarrow> state \<Rightarrow> state" where
  "js_delete name st =
     st\<lparr>sessionsWaitingForSelection := (sessionsWaitingForSelection st)(name := None)\<rparr>"

text \<open>
  \<open>sessionsWaitingForSelection[name] = session\<close> creates or overwrites an own property,
  except for the name \<open>__proto__\<close>, whose inherited setter makes the session the store's
  prototype instead: no own property appears, and the properties of the session (those this file reads
  or writes are listed) become readable through the chain.
\<close>

definition session_properties :: "string list" where
  "session_properties = [''id'', ''ctx'', ''next'', ''data'', ''started'', ''handleURL'']"

definition js_put :: "string \<Rightarrow> session \<Rightarrow> state \<Rightarrow> state" where
  "js_put name s st =
     (if name = ''__proto__''
      then st\<lparr>inherited := session_properties @ inherited st\<rparr>
      else st\<lparr>sessionsWaitingForSelection := (sessionsWaitingForSelection st)(name \<mapsto> s)\<rparr>)"

subsection \<open>\<open>WebEndpoint.handle\<close>\<close>

text \<open>
  An inbound request: whether its content type is \<open>text/plain\<close> or JSON (line 288), its
  body, and the number standing for its \<open>ctx\<close> and \<open>next\<close>.
\<close>

record inbound =
  content_ok :: bool
  request_body :: payload
  request_ctx :: nat

text \<open>
  \<open>HttpError status message\<close> is what \<open>ctx.throw\<close> and \<open>ctx.assert\<close> raise; \<open>TypeError\<close> is
  raised by calling \<open>handleURL\<close> on a value that has no such method; \<open>WorkflowError\<close> is
  whatever \<open>session.handleURL\<close> itself throws.
\<close>

datatype endpoint_error = HttpError nat string | TypeError | WorkflowError string

text \<open>
  \<open>session.handleURL\<close> belongs to the absent \<open>WebSession\<close> class. The handler sees of it
  only how it ends: with an exception, or with a value of \<open>ctx.response.status\<close>.
\<close>

datatype workflow = WThrew string | WStatus nat

definition matches_http :: "string \<Rightarrow> bool" where
  "matches_http s = (take 5 s = ''http:'' \<or> take 6 s = ''https:'')"

text \<open>
  The messages of lines 297, 306, 310 and 322, and the one \<open>ctx.assert\<close> takes from the
  status when it is given none (line 288).
\<close>

definition msg_media_type :: string where
  "msg_media_type = ''Unsupported Media Type''"

definition msg_no_data :: string where
  "msg_no_data = ''POST data not provided'' @ [CHR 0x0A]"

definition msg_no_session :: string where
  "msg_no_session = [CHR 0x27] @ ''session'' @ [CHR 0x27] @ '' not provided''"

definition msg_not_found :: string where
  "msg_not_found = ''Session not found''"

definition msg_no_url :: string where
  "msg_no_url = ''URL not provided''"

text \<open>
  Lines 288--325, up to the call of \<open>session.handleURL\<close>: the result is the error raised
  or the session whose workflow starts. \<open>fresh\<close> and \<open>now\<close> are the identifier and the
  clock a new session takes. For a follow-up naming an inherited property, lines 312--315
  run on the value found (the deletion removes nothing, the three assignments land on
  that value, which for \<open>__proto__\<close> is the store's own prototype) and line 325 raises
  the \<open>TypeError\<close>.
\<close>

definition handle_begin ::
  "string \<Rightarrow> int \<Rightarrow> inbound \<Rightarrow> state \<Rightarrow> (endpoint_error + session) \<times> state" where
  "handle_begin fresh now req st =
     (if \<not> content_ok req then (Inl (HttpError 415 msg_media_type), st)
      else case request_body req of
        Nothing \<Rightarrow> (Inl (HttpError 400 msg_no_data), st)
      | Text url \<Rightarrow>
          if url = [] then (Inl (HttpError 400 msg_no_data), st)
          else if \<not> matches_http url then (Inl (HttpError 400 msg_no_url), st)
          else (Inr (WebSession fresh now (request_ctx req) (request_body req)), st)
      | Object field \<Rightarrow>
          (case field of
             None \<Rightarrow> (Inl (HttpError 400 msg_no_session), st)
           | Some sessionID \<Rightarrow>
               if sessionID = [] then (Inl (HttpError 400 msg_no_session), st)
               else (case js_get st sessionID of
                       Missing \<Rightarrow> (Inl (HttpError 400 msg_not_found), st)
                     | Inherited \<Rightarrow>
                         (Inl TypeError,
                          if sessionID = ''__proto__''
                          then st\<lparr>inherited := [''ctx'', ''next'', ''data''] @ inherited st\<rparr>
                          else st)
                     | Own s \<Rightarrow>
                         (Inr (s\<lparr>ctx := request_ctx req, data := request_body req\<rparr>),
                          js_delete sessionID st))))"

text \<open>
  Lines 325--330: the workflow ends, and the session is stored under its identifier when
  the response status is 300.
\<close>

definition handle_end :: "session \<Rightarrow> workflow \<Rightarrow> state \<Rightarrow> (endpoint_error + nat) \<times> state" where
  "handle_end s w st =
     (case w of
        WThrew msg \<Rightarrow> (Inl (WorkflowError msg), st)
      | WStatus code \<Rightarrow> (Inr code, if code = 300 then js_put (session_id s) s st else st))"

text \<open>The handler run without another request in between.\<close>

definition handle ::
  "workflow \<Rightarrow> string \<Rightarrow> int \<Rightarrow> inbound \<Rightarrow> state \<Rightarrow> (endpoint_error + nat) \<times> state" where
  "handle w fresh now req st =
     (case handle_begin fresh now req st of
        (Inl err, st') \<Rightarrow> (Inl err, st')
      | (Inr s, st') \<Rightarrow> handle_end s w st')"

subsection \<open>\<open>gc\<close>\<close>

definition SELECT_TIMEOUT :: int where
  "SELECT_TIMEOUT = 15"

text \<open>
  Line 341: \<open>session.started && Date.now() >= session.started + SELECT_TIMEOUT * 1000\<close>;
  a start time of 0 is falsy.
\<close>

definition expired :: "int \<Rightarrow> session \<Rightarrow> bool" where
  "expired now s = (started s \<noteq> 0 \<and> now \<ge> started s + SELECT_TIMEOUT * 1000)"

text \<open>
  Lines 337--347. The \<open>for ... in\<close> loop also visits enumerable names of the prototype
  chain; for a name that is no own property the deletion removes nothing, and for an own
  property the value tested is the stored session.
\<close>

definition gc :: "int \<Rightarrow> state \<Rightarrow> state" where
  "gc now st =
     (if Suc (requestsSinceGC st) = 3
      then st\<lparr>sessionsWaitingForSelection :=
                 (\<lambda>i. case sessionsWaitingForSelection st i of
                         None \<Rightarrow> None
                       | Some s \<Rightarrow> if expired now s then None else Some s),
              requestsSinceGC := 0\<rparr>
      else st\<lparr>requestsSinceGC := Suc (requestsSinceGC st)\<rparr>)"

subsection \<open>Runs of the endpoint\<close>

text \<open>
  The handler is suspended at \<open>await session.handleURL()\<close>, and \<open>gc\<close> runs from a timer
  (lines 290--292), so other handlers and sweeps may run between the two halves of one
  request. A run is any sequence of first halves, second halves and sweeps.
\<close>

datatype event =
    Begin string int inbound
  | End session workflow
  | Sweep int

fun step :: "event \<Rightarrow> state \<Rightarrow> state" where
  "step (Begin fresh now req) st = snd (handle_begin fresh now req st)"
| "step (End s w) st = snd (handle_end s w st)"
| "step (Sweep now) st = gc now st"

fun run :: "event list \<Rightarrow> state \<Rightarrow> state" where
  "run [] st = st"
| "run (ev # evs) st = run evs (step ev st)"

text \<open>
  Requests with an acceptable content type: a follow-up carrying an identifier, a JSON
  body without a \<open>session\<close> field, and a new request for a URL.
\<close>

definition follow_up :: "string \<Rightarrow> nat \<Rightarrow> inbound" where
  "follow_up sessionID c =
     \<lparr>content_ok = True, request_body = Object (Some sessionID), request_ctx = c\<rparr>"


definition new_url :: "string \<Rightarrow> nat \<Rightarrow> inbound" where
  "new_url url c = \<lparr>content_ok = True, request_body = Text url, request_ctx = c\<rparr>"


section \<open>Concrete inputs\<close>

text \<open>
  A network on which \<open>http://a\<close> answers 200, \<open>http://b\<close> answers 404 and every other
  address times out; no global \<open>status\<close> exists.
\<close>

definition example_env :: env where
  "example_env =
     \<lparr>userAgent = ''translation-server'',
      net = (\<lambda>method url.
               if url = ''http://a''
               then Responded \<lparr>statusCode = 200, response_headers = [], response_body = ''A''\<rparr>
               else if url = ''http://b''
               then Responded \<lparr>statusCode = 404, response_headers = [], response_body = ''gone''\<rparr>
               else Failed ETIMEDOUT),
      status_global = None\<rparr>"

definition url_length :: "nat processor" where
  "url_length doc url = (if doc = [] then Inl (ProcessorError url) else Inr (length url))"

definition login_body :: string where
  "login_body = ''{'' @ [CHR 0x22] @ ''password'' @ [CHR 0x22] @ '':'' @ [CHR 0x22]
                @ ''secret'' @ [CHR 0x22] @ ''}''"

text \<open>The state after a new request for a URL has ended with status 300.\<close>

definition paused_session :: session where
  "paused_session = WebSession ''abc'' 1000 1 (Text ''http://example.com/'')"


text \<open>Stores on which the third sweep is due.\<close>

definition old_session :: session where
  "old_session = WebSession ''old'' 1000 1 (Text ''http://example.com/'')"

definition young_session :: session where
  "young_session = WebSession ''young'' 10000 2 (Text ''http://example.com/'')"

definition sweep_state :: state where
  "sweep_state =
     \<lparr>sessionsWaitingForSelection = [''old'' \<mapsto> old_session, ''young'' \<mapsto> young_session],
      inherited = Object_prototype, requestsSinceGC = 2\<rparr>"

section \<open>Properties of \<open>request\<close>\<close>

subsection \<open>The log line\<close>

lemma mem_dropWhile: "x \<in> set xs \<Longrightarrow> \<not> P x \<Longrightarrow> x \<in> set (dropWhile P xs)"
  by (induction xs) auto

text \<open>A text that begins with a colon is no number.\<close>

lemma to_number_colon: "to_number (CHR '':'' # s) = None"
proof -
  define t where "t = rev (dropWhile js_space (rev (dropWhile js_space (CHR '':'' # s))))"
  have ns: "\<not> js_space CHR '':''" by (simp add: js_space_def)
  have nd: "\<not> is_digit CHR '':''" by (simp add: is_digit_def)
  have d1: "dropWhile js_space (CHR '':'' # s) = CHR '':'' # s" using ns by simp
  have "CHR '':'' \<in> set (dropWhile js_space (rev (CHR '':'' # s)))"
    by (rule mem_dropWhile) (simp_all add: ns)
  then have m: "CHR '':'' \<in> set t" unfolding t_def d1 by simp
  have ne: "t \<noteq> []" using m by (cases t) simp_all
  have na: "\<not> list_all is_digit t" using m nd unfolding list_all_iff by blast
  have "to_number (CHR '':'' # s) =
          (if t = [] then Some 0 else if list_all is_digit t then Some (digits_value t) else None)"
    unfolding to_number_def t_def Let_def ..
  then show ?thesis using ne na by simp
qed

text \<open>
  So the comparison of lines 101--102 is false for every body and every cap, and
  \<open>logBody\<close> is always the empty string: nothing is left for the two replacements.
\<close>

lemma logBody_of_empty: "logBody_of b cap = []"
  by (simp add: logBody_of_def js_gt_def to_number_colon)

lemma logged_send:
  "logged_before_send (snd (send e method url opts logBody))
   = [''HTTP '' @ method @ '' '' @ url @ logBody]"
  by (simp add: send_def Let_def split: net_result.splits option.splits bool.splits)

lemma logged_request:
  "logged_before_send (snd (request e method url opts))
   = (if method \<in> set [''GET'', ''HEAD''] \<and> body opts \<noteq> BNull then []
      else [''HTTP '' @ method @ '' '' @ url])"
  by (simp add: request_def Let_def logged_send logBody_of_empty)

text \<open>
  C7. A call with method GET or HEAD and a body other than \<open>null\<close> throws the
  invalid-argument error at once: nothing is logged and nothing is handed to the
  transport (the list of effects is empty).
\<close>

theorem request_get_head_with_body_throws:
  assumes "method = ''GET'' \<or> method = ''HEAD''" and "body opts \<noteq> BNull"
  shows "request e method url opts = (Threw (InvalidArgument method (body opts)), [])"
  using assms by (auto simp: request_def Let_def)

theorem request_get_head_with_body_throws_witness:
  "(''GET'' = ''GET'' \<or> ''GET'' = ''HEAD'')
   \<and> body (default_options\<lparr>body := BStr ''q=1''\<rparr>) \<noteq> BNull
   \<and> request example_env ''GET'' ''http://a'' (default_options\<lparr>body := BStr ''q=1''\<rparr>)
       = (Threw (InvalidArgument ''GET'' (BStr ''q=1'')), [])"
  using request_get_head_with_body_throws
          [of "''GET''" "default_options\<lparr>body := BStr ''q=1''\<rparr>" example_env "''http://a''"]
  by (simp add: default_options_def)

text \<open>
  C8. The lines logged before a request is sent are fixed by the method and the URL alone
  (one line \<open>HTTP method url\<close>, or none when the call throws): the body and the debug flag
  have no part in them. So a secret of the body occurs in a logged line only where the
  method and the URL already spell it.
\<close>

theorem request_log_independent_of_body:
  "logged_before_send (snd (request e method url opts))
     = (if method \<in> set [''GET'', ''HEAD''] \<and> body opts \<noteq> BNull then []
        else [''HTTP '' @ method @ '' '' @ url])
   \<and> (\<forall>l \<in> set (logged_before_send (snd (request e method url opts))).
         \<not> contains (''HTTP '' @ method @ '' '' @ url) secret \<longrightarrow> \<not> contains l secret)"
  by (simp add: logged_request)

theorem request_log_independent_of_body_witness:
  "logged_before_send (snd (request example_env ''POST'' ''http://a/login''
       (default_options\<lparr>body := BStr login_body, debug := True\<rparr>)))
     = [''HTTP POST http://a/login'']
   \<and> contains login_body ''secret''
   \<and> \<not> contains ''HTTP POST http://a/login'' ''secret''"
  using request_log_independent_of_body
          [of example_env "''POST''" "''http://a/login''"
              "default_options\<lparr>body := BStr login_body, debug := True\<rparr>" "''secret''"]
  by (simp add: login_body_def)

text \<open>
  C9. The claim asks for the truncated body in the logged line. For the POST body
  \<open>a=1\<close> the code logs the method and the URL and no part of the body.
\<close>

theorem request_logs_no_body:
  "logged_before_send (snd (request example_env ''POST'' ''http://a/form''
       (default_options\<lparr>body := BStr ''a=1''\<rparr>)))
     = [''HTTP POST http://a/form'']"
  by (simp add: logged_request)

subsection \<open>Success classification\<close>

text \<open>What the callback does with a response under the default and the disabled setting.\<close>

lemma send_default_codes:
  assumes "net e method url = Responded r" and "successCodes opts = Unset"
  shows "fst (send e method url opts logBody)
         = (if 200 \<le> statusCode r \<and> statusCode r < 300
            then Resolved \<lparr>responseText = response_body r, reply_headers = response_headers r,
                           reply_statusCode = statusCode r\<rparr>
            else Rejected (StatusError url (statusCode r) (response_body r)))"
  using assms by (auto simp: send_def success_def Let_def split: bool.splits)

lemma send_codes_disabled:
  assumes "net e method url = Responded r" and "successCodes opts = Disabled"
  shows "fst (send e method url opts logBody)
         = Resolved \<lparr>responseText = response_body r, reply_headers = response_headers r,
                      reply_statusCode = statusCode r\<rparr>"
  using assms by (simp add: send_def success_def Let_def)

text \<open>With an array of codes the verdict does not depend on the status of the response.\<close>

lemma success_codes_ignore_response:
  "success e (Codes cs) code = success e (Codes cs) code'"
  by (simp add: success_def)

text \<open>
  C4. With \<open>successCodes: [200]\<close> and a response of status 200 the claim asks for
  success. The code reads the undeclared identifier \<open>status\<close> (line 124): a
  \<open>ReferenceError\<close> is raised inside the callback and the promise never settles.
\<close>

theorem request_explicit_codes_reference_error:
  "fst (request example_env ''GET'' ''http://a'' (default_options\<lparr>successCodes := Codes [200]\<rparr>))
   = Uncaught (ReferenceError ''status'')"
  by (simp add: request_def send_def success_def example_env_def default_options_def)

subsection \<open>Timeouts\<close>

text \<open>No call is ever rejected with the error of lines 44--47.\<close>

lemma send_never_TimeoutError:
  "fst (send e method url opts logBody) \<noteq> Rejected (TimeoutError ms)"
  by (simp add: send_def Let_def split: net_result.splits option.splits bool.splits)

lemma request_never_TimeoutError: "fst (request e method url opts) \<noteq> Rejected (TimeoutError ms)"
  by (simp add: request_def Let_def send_never_TimeoutError)

text \<open>
  C6. The claim asks for a rejection with \<open>TimeoutError\<close> carrying the configured
  duration. On a timeout the transport calls back with its own error, and line 119
  rejects with that error as it is; \<open>TimeoutError\<close> is constructed nowhere.
\<close>

theorem request_timeout_passes_transport_error:
  "fst (request example_env ''GET'' ''http://slow'' (default_options\<lparr>timeout := 15000\<rparr>))
     = Rejected (TransportError ETIMEDOUT)
   \<and> fst (request example_env ''GET'' ''http://slow'' (default_options\<lparr>timeout := 15000\<rparr>))
     \<noteq> Rejected (TimeoutError 15000)"
  by (simp add: request_def send_def example_env_def default_options_def)

section \<open>Properties of \<open>processDocuments\<close>\<close>

lemma outbound_urls_append: "outbound_urls (xs @ ys) = outbound_urls xs @ outbound_urls ys"
  by (induction xs rule: outbound_urls.induct) simp_all

lemma outbound_send: "outbound_urls (snd (send e method url opts logBody)) = [url]"
  by (simp add: send_def Let_def outbound_urls_append
           split: net_result.splits option.splits bool.splits)

text \<open>The request of line 170 has no body, so it always reaches the transport.\<close>

lemma request_document:
  "request e ''GET'' url (default_options\<lparr>responseType := ''document''\<rparr>)
   = send e ''GET'' url
       (default_options\<lparr>responseType := ''document'',
                         headers := [(''User-Agent'', userAgent e)]\<rparr>) []"
  by (simp add: request_def default_options_def)

lemma outbound_load_one: "outbound_urls (snd (load_one e p url)) = [url]"
proof -
  obtain out fx where r:
    "request e ''GET'' url (default_options\<lparr>responseType := ''document''\<rparr>) = (out, fx)"
    by (cases "request e ''GET'' url (default_options\<lparr>responseType := ''document''\<rparr>)")
  have "outbound_urls fx = [url]"
    using outbound_send [of e "''GET''" url _ "[]"] r unfolding request_document
    by (metis snd_conv)
  then show ?thesis
    unfolding load_one_def r
    by (cases out) (simp_all add: outbound_urls_append split: sum.splits)
qed

text \<open>One URL fails either in the fetch or in the processor.\<close>

lemma load_one_rejected_iff:
  "fst (load_one e p url) = Rejected err \<longleftrightarrow>
     fst (request e ''GET'' url (default_options\<lparr>responseType := ''document''\<rparr>)) = Rejected err
     \<or> (\<exists>r. fst (request e ''GET'' url (default_options\<lparr>responseType := ''document''\<rparr>))
               = Resolved r \<and> p (responseText r) url = Inl err)"
proof -
  obtain out fx where r:
    "request e ''GET'' url (default_options\<lparr>responseType := ''document''\<rparr>) = (out, fx)"
    by (cases "request e ''GET'' url (default_options\<lparr>responseType := ''document''\<rparr>)")
  show ?thesis
    unfolding load_one_def r by (cases out) (auto split: sum.splits)
qed

lemma process_queue_fails:
  assumes "\<forall>x \<in> set ok. \<exists>v. fst (load_one e p x) = Resolved v"
      and "fst (load_one e p u) = Rejected err"
  shows "fst (process_queue e p onError (ok @ u # rest) acc) = Rejected err
       \<and> outbound_urls (snd (process_queue e p onError (ok @ u # rest) acc)) = ok @ [u]"
  using assms
proof (induction ok arbitrary: acc)
  case Nil
  then show ?case
    using outbound_load_one [of e p u]
    by (cases "load_one e p u") (auto simp: outbound_urls_append)
next
  case (Cons x xs)
  then obtain v where "fst (load_one e p x) = Resolved v" by auto
  then obtain fx where lx: "load_one e p x = (Resolved v, fx)"
    by (cases "load_one e p x") auto
  have fxu: "outbound_urls fx = [x]"
    using outbound_load_one [of e p x] lx by simp
  from Cons have
    "fst (process_queue e p onError (xs @ u # rest) (acc @ [v])) = Rejected err
     \<and> outbound_urls (snd (process_queue e p onError (xs @ u # rest) (acc @ [v]))) = xs @ [u]"
    by auto
  then show ?case
    using lx fxu by (auto simp: outbound_urls_append split: prod.splits)
qed

lemma process_queue_effects:
  assumes "\<forall>x \<in> set ok. \<exists>v. fst (load_one e p x) = Resolved v"
      and "fst (load_one e p u) = Rejected err"
  shows "snd (process_queue e p False (ok @ u # rest) acc)
         = concat (map (\<lambda>x. snd (load_one e p x)) (ok @ [u]))"
  using assms
proof (induction ok arbitrary: acc)
  case Nil
  then show ?case by (cases "load_one e p u") auto
next
  case (Cons x xs)
  then obtain v where "fst (load_one e p x) = Resolved v" by auto
  then obtain fx where lx: "load_one e p x = (Resolved v, fx)"
    by (cases "load_one e p x") auto
  from Cons have
    "snd (process_queue e p False (xs @ u # rest) (acc @ [v]))
     = concat (map (\<lambda>x. snd (load_one e p x)) (xs @ [u]))"
    by auto
  then show ?case
    using lx by (auto split: prod.splits)
qed

lemma processDocuments_outcome:
  "fst (processDocuments e us p legacy)
   = fst (process_queue e p (case legacy of None \<Rightarrow> False | Some cb \<Rightarrow> snd cb)
            (case us of Single u \<Rightarrow> [u] | Array xs \<Rightarrow> xs) [])"
  by (simp add: processDocuments_def Let_def split: prod.splits outcome.splits)

lemma processDocuments_outbound:
  "outbound_urls (snd (processDocuments e us p legacy))
   = outbound_urls
       (snd (process_queue e p (case legacy of None \<Rightarrow> False | Some cb \<Rightarrow> snd cb)
               (case us of Single u \<Rightarrow> [u] | Array xs \<Rightarrow> xs) []))"
  by (simp add: processDocuments_def Let_def outbound_urls_append
           split: prod.splits outcome.splits option.splits)

lemma processDocuments_effects_on_failure:
  assumes "fst (process_queue e p False xs []) = Rejected err"
  shows "snd (processDocuments e (Array xs) p None) = snd (process_queue e p False xs [])"
  using assms by (simp add: processDocuments_def split: prod.splits outcome.splits)

lemma process_queue_all_ok:
  assumes "\<forall>x \<in> set ok. \<exists>v. fst (load_one e p x) = Resolved v"
  shows "\<exists>vs. process_queue e p onError ok acc
              = (Resolved (acc @ vs), concat (map (\<lambda>x. snd (load_one e p x)) ok))
            \<and> length vs = length ok"
  using assms
proof (induction ok arbitrary: acc)
  case Nil
  then show ?case by simp
next
  case (Cons x xs)
  then obtain v where "fst (load_one e p x) = Resolved v" by auto
  then obtain fx where lx: "load_one e p x = (Resolved v, fx)"
    by (cases "load_one e p x") auto
  from Cons obtain vs where
    "process_queue e p onError xs (acc @ [v])
       = (Resolved ((acc @ [v]) @ vs), concat (map (\<lambda>x. snd (load_one e p x)) xs))"
    and "length vs = length xs"
    by fastforce
  then have "process_queue e p onError (x # xs) acc
       = (Resolved (acc @ (v # vs)), concat (map (\<lambda>x. snd (load_one e p x)) (x # xs)))
     \<and> length (v # vs) = length (x # xs)"
    using lx by simp
  then show ?case by blast
qed

lemma processDocuments_all_ok:
  assumes "\<forall>x \<in> set ok. \<exists>v. fst (load_one e p x) = Resolved v"
  shows "\<exists>vs. processDocuments e (Array ok) p None
              = (Resolved vs, concat (map (\<lambda>x. snd (load_one e p x)) ok))
            \<and> length vs = length ok"
proof -
  from process_queue_all_ok [OF assms, of False "[]"] obtain vs where
    "process_queue e p False ok [] = (Resolved vs, concat (map (\<lambda>x. snd (load_one e p x)) ok))"
    and "length vs = length ok"
    by auto
  then show ?thesis by (simp add: processDocuments_def)
qed

text \<open>
  C5. When the URLs before \<open>u\<close> load and \<open>u\<close> fails (in the fetch or in the processor, see
  \<open>load_one_rejected_iff\<close>), the call is rejected with the error of \<open>u\<close> and carries no
  results; the requests issued are those for the URLs up to \<open>u\<close>, in order, and none for
  the rest; and with the two-argument signature the effects are those of these URLs one
  after the other: each document is fetched and processed before the next is requested.
  The same order holds for a list whose URLs all load, which gives one result for each.
\<close>

theorem processDocuments_first_failure:
  assumes "\<forall>x \<in> set ok. \<exists>v. fst (load_one e p x) = Resolved v"
      and "fst (load_one e p u) = Rejected err"
  shows "fst (processDocuments e (Array (ok @ u # rest)) p legacy) = Rejected err
       \<and> outbound_urls (snd (processDocuments e (Array (ok @ u # rest)) p legacy)) = ok @ [u]
       \<and> snd (processDocuments e (Array (ok @ u # rest)) p None)
           = concat (map (\<lambda>x. snd (load_one e p x)) (ok @ [u]))
       \<and> (\<exists>vs. processDocuments e (Array ok) p None
                  = (Resolved vs, concat (map (\<lambda>x. snd (load_one e p x)) ok))
                \<and> length vs = length ok)"
proof -
  have a: "fst (processDocuments e (Array (ok @ u # rest)) p legacy) = Rejected err"
    using process_queue_fails [OF assms] by (simp add: processDocuments_outcome)
  have b: "outbound_urls (snd (processDocuments e (Array (ok @ u # rest)) p legacy)) = ok @ [u]"
    using process_queue_fails [OF assms] by (simp add: processDocuments_outbound)
  have "fst (process_queue e p False (ok @ u # rest) []) = Rejected err"
    using process_queue_fails [OF assms] by simp
  then have c: "snd (processDocuments e (Array (ok @ u # rest)) p None)
           = concat (map (\<lambda>x. snd (load_one e p x)) (ok @ [u]))"
    using processDocuments_effects_on_failure [of e p "ok @ u # rest" err]
      process_queue_effects [OF assms, of rest "[]"]
    by simp
  show ?thesis using a b c processDocuments_all_ok [OF assms(1)] by blast
qed

lemma load_a: "fst (load_one example_env url_length ''http://a'') = Resolved 8"
  by (simp add: load_one_def example_env_def url_length_def request_def send_def success_def
                default_options_def)

lemma load_b:
  "fst (load_one example_env url_length ''http://b'')
   = Rejected (StatusError ''http://b'' 404 ''gone'')"
  by (simp add: load_one_def example_env_def url_length_def request_def send_def success_def
                default_options_def)

theorem processDocuments_first_failure_witness:
  "fst (load_one example_env url_length ''http://a'') = Resolved 8
   \<and> fst (load_one example_env url_length ''http://b'')
       = Rejected (StatusError ''http://b'' 404 ''gone'')
   \<and> fst (processDocuments example_env (Array [''http://a'', ''http://b'', ''http://c''])
            url_length None)
       = Rejected (StatusError ''http://b'' 404 ''gone'')
   \<and> outbound_urls
        (snd (processDocuments example_env (Array [''http://a'', ''http://b'', ''http://c''])
                url_length None))
       = [''http://a'', ''http://b'']"
proof -
  have h1: "\<forall>x \<in> set [''http://a'']. \<exists>v. fst (load_one example_env url_length x) = Resolved v"
    using load_a by simp
  note first_failure = processDocuments_first_failure [OF h1 load_b, of "[''http://c'']" None]
  have a: "fst (processDocuments example_env (Array [''http://a'', ''http://b'', ''http://c''])
            url_length None) = Rejected (StatusError ''http://b'' 404 ''gone'')"
    using first_failure [THEN conjunct1] by simp
  have b: "outbound_urls
        (snd (processDocuments example_env (Array [''http://a'', ''http://b'', ''http://c''])
                url_length None)) = [''http://a'', ''http://b'']"
    using first_failure [THEN conjunct2, THEN conjunct1] by simp
  show ?thesis
    using load_a load_b a b by blast
qed

text \<open>
  C10. A single URL string is handled as the array holding it: the two calls are equal
  in outcome and effects, one request is issued, for that URL, and when the URL loads
  the result is the one-element array of the processor's result.
\<close>

theorem processDocuments_single_url:
  "processDocuments e (Single u) p legacy = processDocuments e (Array [u]) p legacy
   \<and> outbound_urls (snd (processDocuments e (Single u) p legacy)) = [u]
   \<and> (\<forall>v. fst (load_one e p u) = Resolved v \<longrightarrow>
         fst (processDocuments e (Single u) p legacy) = Resolved [v])"
proof -
  have a: "processDocuments e (Single u) p legacy = processDocuments e (Array [u]) p legacy"
    by (simp add: processDocuments_def)
  have b: "outbound_urls (snd (processDocuments e (Single u) p legacy)) = [u]"
    using outbound_load_one [of e p u]
    by (cases "load_one e p u")
       (auto simp: processDocuments_outbound outbound_urls_append split: outcome.splits)
  have c: "\<forall>v. fst (load_one e p u) = Resolved v \<longrightarrow>
         fst (processDocuments e (Single u) p legacy) = Resolved [v]"
    by (cases "load_one e p u") (auto simp: processDocuments_outcome)
  show ?thesis using a b c by blast
qed

theorem processDocuments_single_url_witness:
  "fst (load_one example_env url_length ''http://a'') = Resolved 8
   \<and> processDocuments example_env (Single ''http://a'') url_length None
       = processDocuments example_env (Array [''http://a'']) url_length None
   \<and> outbound_urls (snd (processDocuments example_env (Single ''http://a'') url_length None))
       = [''http://a'']
   \<and> fst (processDocuments example_env (Single ''http://a'') url_length None) = Resolved [8]"
proof -
  note single = processDocuments_single_url [of example_env "''http://a''" url_length None]
  have "fst (processDocuments example_env (Single ''http://a'') url_length None) = Resolved [8]"
    using single load_a by blast
  then show ?thesis
    using load_a single by blast
qed

section \<open>Properties of the endpoint\<close>

subsection \<open>Follow-up requests\<close>








text \<open>
  A name the store inherits passes the test of line 309 and ends in a \<open>TypeError\<close>, not
  in the 400 answer.
\<close>

lemma follow_up_inherited:
  assumes "sessionsWaitingForSelection st sessionID = None" and "sessionID \<noteq> []"
      and "sessionID \<in> set (inherited st)"
  shows "fst (handle w fresh now (follow_up sessionID c) st) = Inl TypeError"
  using assms by (simp add: handle_def handle_begin_def follow_up_def js_get_def)

lemma follow_up_constructor:
  "fst (handle w fresh now (follow_up ''constructor'' c) initial_state) = Inl TypeError"
  by (rule follow_up_inherited) (simp_all add: initial_state_def Object_prototype_def)




subsection \<open>What the store holds\<close>

lemma step_store:
  assumes "sessionsWaitingForSelection (step ev st) k = Some s"
  shows "sessionsWaitingForSelection st k = Some s
         \<or> (ev = End s (WStatus 300) \<and> session_id s = k)"
proof (cases ev)
  case (Begin fresh now req)
  then show ?thesis
    using assms
    by (auto simp: handle_begin_def js_get_def js_delete_def
             split: if_splits payload.splits option.splits slot.splits)
next
  case (End s' w)
  then show ?thesis
    using assms by (auto simp: handle_end_def js_put_def split: if_splits workflow.splits)
next
  case (Sweep now)
  then show ?thesis
    using assms by (auto simp: gc_def split: if_splits option.splits)
qed

lemma run_store:
  assumes "sessionsWaitingForSelection (run evs st) k = Some s"
  shows "sessionsWaitingForSelection st k = Some s
         \<or> (End s (WStatus 300) \<in> set evs \<and> session_id s = k)"
  using assms
proof (induction evs arbitrary: st)
  case Nil
  then show ?case by simp
next
  case (Cons ev evs)
  from Cons.IH [of "step ev st"] Cons.prems
  have "sessionsWaitingForSelection (step ev st) k = Some s
        \<or> (End s (WStatus 300) \<in> set evs \<and> session_id s = k)"
    by simp
  then show ?case
    using step_store [of ev st k s] by auto
qed

text \<open>An uninterrupted handling is a run of its two halves.\<close>

lemma handle_is_run:
  "snd (handle w fresh now req st)
   = (case fst (handle_begin fresh now req st) of
        Inl err \<Rightarrow> run [Begin fresh now req] st
      | Inr s \<Rightarrow> run [Begin fresh now req, End s w] st)"
  by (cases "handle_begin fresh now req st") (auto simp: handle_def split: sum.splits)

lemma handle_end_other:
  assumes "w \<noteq> WStatus 300"
  shows "snd (handle_end s w st) = st"
  using assms by (cases w) (simp_all add: handle_end_def)

text \<open>
  C2. In every run from the initial state, a session found in the store was put there by
  the second half of a request that handled this session and ended with status 300,
  under the session's identifier; and a second half that ends otherwise (another status,
  or an exception) leaves the state as it is.
\<close>

theorem stored_sessions_ended_300:
  "(sessionsWaitingForSelection (run evs initial_state) k = Some s \<longrightarrow>
      End s (WStatus 300) \<in> set evs \<and> session_id s = k)
   \<and> (w \<noteq> WStatus 300 \<longrightarrow> snd (handle_end s' w st) = st)"
proof -
  have "sessionsWaitingForSelection initial_state k = None"
    by (simp add: initial_state_def)
  then have "sessionsWaitingForSelection (run evs initial_state) k = Some s \<longrightarrow>
      End s (WStatus 300) \<in> set evs \<and> session_id s = k"
    using run_store [of evs initial_state k s] by auto
  then show ?thesis using handle_end_other by blast
qed

theorem stored_sessions_ended_300_witness:
  "sessionsWaitingForSelection
      (run [Begin ''abc'' 1000 (new_url ''http://example.com/'' 1),
            End paused_session (WStatus 300)] initial_state) ''abc'' = Some paused_session
   \<and> End paused_session (WStatus 300)
       \<in> set [Begin ''abc'' 1000 (new_url ''http://example.com/'' 1),
              End paused_session (WStatus 300)]
   \<and> session_id paused_session = ''abc''
   \<and> WStatus 200 \<noteq> WStatus 300
   \<and> snd (handle_end paused_session (WStatus 200) initial_state) = initial_state"
proof -
  have a: "sessionsWaitingForSelection
      (run [Begin ''abc'' 1000 (new_url ''http://example.com/'' 1),
            End paused_session (WStatus 300)] initial_state) ''abc'' = Some paused_session"
    by (simp add: paused_session_def handle_begin_def handle_end_def new_url_def
                  matches_http_def js_put_def WebSession_def)
  have b: "WStatus 200 \<noteq> WStatus 300" by simp
  note inv = stored_sessions_ended_300
      [of "[Begin ''abc'' 1000 (new_url ''http://example.com/'' 1),
            End paused_session (WStatus 300)]" "''abc''" paused_session "WStatus 200"
          paused_session initial_state]
  show ?thesis using a b inv by blast
qed

subsection \<open>The sweep\<close>

text \<open>What a due sweep does to each stored session, and that it adds nothing.\<close>

lemma gc_due_store:
  assumes "requestsSinceGC st = 2"
  shows "sessionsWaitingForSelection (gc now st) k
         = (case sessionsWaitingForSelection st k of
              None \<Rightarrow> None
            | Some s \<Rightarrow> if started s \<noteq> 0 \<and> SELECT_TIMEOUT * 1000 \<le> now - started s
                        then None else Some s)"
  using assms by (auto simp: gc_def expired_def split: option.splits)

text \<open>
  The start time of a session is the reading of the clock at its creation, in
  milliseconds since 1970, and so is not 0: with such readings, the session a first half
  hands to the workflow has a start time other than 0 when the stored ones have, and in
  a run whose second halves carry such sessions every stored session has one.
\<close>

lemma handle_begin_started:
  assumes "handle_begin fresh now req st = (Inr s, st')"
      and "now \<noteq> 0"
      and "\<forall>k s'. sessionsWaitingForSelection st k = Some s' \<longrightarrow> started s' \<noteq> 0"
  shows "started s \<noteq> 0"
  using assms
  by (auto simp: handle_begin_def WebSession_def js_get_def
           split: if_splits payload.splits option.splits slot.splits)

lemma stored_started:
  assumes "sessionsWaitingForSelection (run evs initial_state) k = Some s"
      and "\<forall>s' w. End s' w \<in> set evs \<longrightarrow> started s' \<noteq> 0"
  shows "started s \<noteq> 0"
proof -
  have "sessionsWaitingForSelection initial_state k = None"
    by (simp add: initial_state_def)
  then have "End s (WStatus 300) \<in> set evs"
    using run_store [OF assms(1)] by simp
  then show ?thesis using assms(2) by blast
qed

text \<open>
  C3. Each call of \<open>gc\<close> adds one to the counter. When that makes it 3, the counter goes
  back to zero, every stored session (its start time being a reading of the clock, not
  0) whose age \<open>now - started\<close> exceeds the window of 15 seconds is removed, every stored
  session younger than the window stays as it is, and nothing is added. When the
  counter does not reach 3, the store is unchanged.
\<close>

theorem gc_removes_expired:
  "(requestsSinceGC st = 2 \<longrightarrow>
      requestsSinceGC (gc now st) = 0
      \<and> (\<forall>k s. sessionsWaitingForSelection st k = Some s \<and> started s \<noteq> 0
              \<and> SELECT_TIMEOUT * 1000 < now - started s \<longrightarrow>
            sessionsWaitingForSelection (gc now st) k = None)
      \<and> (\<forall>k s. sessionsWaitingForSelection st k = Some s
              \<and> now - started s < SELECT_TIMEOUT * 1000 \<longrightarrow>
            sessionsWaitingForSelection (gc now st) k = Some s)
      \<and> (\<forall>k. sessionsWaitingForSelection st k = None \<longrightarrow>
            sessionsWaitingForSelection (gc now st) k = None))
   \<and> (requestsSinceGC st \<noteq> 2 \<longrightarrow>
      requestsSinceGC (gc now st) = Suc (requestsSinceGC st)
      \<and> sessionsWaitingForSelection (gc now st) = sessionsWaitingForSelection st)
   \<and> SELECT_TIMEOUT * 1000 = 15000"
proof -
  have due: "requestsSinceGC (gc now st) = 0
      \<and> (\<forall>k s. sessionsWaitingForSelection st k = Some s \<and> started s \<noteq> 0
              \<and> SELECT_TIMEOUT * 1000 < now - started s \<longrightarrow>
            sessionsWaitingForSelection (gc now st) k = None)
      \<and> (\<forall>k s. sessionsWaitingForSelection st k = Some s
              \<and> now - started s < SELECT_TIMEOUT * 1000 \<longrightarrow>
            sessionsWaitingForSelection (gc now st) k = Some s)
      \<and> (\<forall>k. sessionsWaitingForSelection st k = None \<longrightarrow>
            sessionsWaitingForSelection (gc now st) k = None)"
    if c: "requestsSinceGC st = 2"
  proof -
    have "requestsSinceGC (gc now st) = 0" using c by (simp add: gc_def)
    then show ?thesis by (simp add: gc_due_store [OF c])
  qed
  have idle: "requestsSinceGC (gc now st) = Suc (requestsSinceGC st)
      \<and> sessionsWaitingForSelection (gc now st) = sessionsWaitingForSelection st"
    if "requestsSinceGC st \<noteq> 2"
    using that by (simp add: gc_def)
  have "SELECT_TIMEOUT * 1000 = 15000" by (simp add: SELECT_TIMEOUT_def)
  then show ?thesis using due idle by blast
qed

theorem gc_removes_expired_witness:
  "requestsSinceGC sweep_state = 2
   \<and> requestsSinceGC (gc 20000 sweep_state) = 0
   \<and> sessionsWaitingForSelection sweep_state ''old'' = Some old_session
   \<and> started old_session = 1000
   \<and> sessionsWaitingForSelection (gc 20000 sweep_state) ''old'' = None
   \<and> sessionsWaitingForSelection sweep_state ''young'' = Some young_session
   \<and> started young_session = 10000
   \<and> sessionsWaitingForSelection (gc 20000 sweep_state) ''young'' = Some young_session
   \<and> requestsSinceGC initial_state = 0
   \<and> requestsSinceGC (gc 20000 initial_state) = 1"
proof -
  have c: "requestsSinceGC sweep_state = 2" by (simp add: sweep_state_def)
  have o: "sessionsWaitingForSelection sweep_state ''old'' = Some old_session"
    by (simp add: sweep_state_def)
  have y: "sessionsWaitingForSelection sweep_state ''young'' = Some young_session"
    by (simp add: sweep_state_def)
  have so: "started old_session = 1000" by (simp add: old_session_def WebSession_def)
  have sy: "started young_session = 10000" by (simp add: young_session_def WebSession_def)
  have ao: "started old_session \<noteq> 0 \<and> SELECT_TIMEOUT * 1000 < 20000 - started old_session"
    using so by (simp add: SELECT_TIMEOUT_def)
  have ay: "20000 - started young_session < SELECT_TIMEOUT * 1000"
    using sy by (simp add: SELECT_TIMEOUT_def)
  note due = gc_removes_expired [of sweep_state 20000]
  have r: "requestsSinceGC (gc 20000 sweep_state) = 0" using due c by blast
  have ro: "sessionsWaitingForSelection (gc 20000 sweep_state) ''old'' = None"
    using due c o ao by blast
  have ry: "sessionsWaitingForSelection (gc 20000 sweep_state) ''young'' = Some young_session"
    using due c y ay by blast
  have i: "requestsSinceGC initial_state = 0" by (simp add: initial_state_def)
  have ri: "requestsSinceGC (gc 20000 initial_state) = 1"
    using gc_removes_expired [of initial_state 20000] i by simp
  show ?thesis using c r o so ro y sy ry i ri by blast
qed

end
